theory Spec2Isabelle
  imports Complex_Main "HOL-Library.Word"
begin

unbundle bit_operations_syntax

section \<open>Cloud masking: \<open>maskS2clouds\<close>\<close>

text \<open>
  The script \<^verbatim>\<open>classification.js\<close> is a client of the Earth Engine library: every
  \<^verbatim>\<open>ee.Image\<close> operation it calls works pixel by pixel. The embedding follows one pixel
  through the script. The library itself is not part of the repository, so each of its
  operations is a small definition of its own, written after the library's documented
  behaviour and named after the call in the script.

  Numbers: the raw band values of the Sentinel-2 collection are integers (\<open>int\<close> here);
  the results of \<^verbatim>\<open>divide\<close> and the pixel areas are floating point in the engine and
  exact reals here, so rounding is not part of the model. Statements whose truth turns
  on rounding (that two different orders of adding or dividing give the same number)
  are therefore not made below.
\<close>

subsection \<open>The two bit masks\<close>

text \<open>
  JavaScript's \<^verbatim>\<open><<\<close>: the left operand is taken as a 32-bit integer, the shift count
  modulo 32, and the result is read as a signed 32-bit integer.
\<close>

definition js_shl :: "int \<Rightarrow> nat \<Rightarrow> int" where
  "js_shl a n = sint (push_bit (n mod 32) (word_of_int a :: 32 word))"

text \<open>\<^verbatim>\<open>var cloudBitMask = 1 << 10;\<close>\<close>

definition cloudBitMask :: int where
  "cloudBitMask = js_shl 1 10"

text \<open>\<^verbatim>\<open>var cirrusBitMask = 1 << 11;\<close>\<close>

definition cirrusBitMask :: int where
  "cirrusBitMask = js_shl 1 11"

subsection \<open>Pixel operations of the library\<close>

text \<open>\<^verbatim>\<open>ee.Image.bitwiseAnd\<close>: the bitwise AND of two integer pixel values.\<close>

definition bitwiseAnd :: "int \<Rightarrow> int \<Rightarrow> int" where
  "bitwiseAnd a b = a AND b"

text \<open>\<^verbatim>\<open>ee.Image.eq\<close>: 1 where the two values are equal, 0 elsewhere.\<close>

definition eq_px :: "int \<Rightarrow> int \<Rightarrow> int" where
  "eq_px a b = (if a = b then 1 else 0)"

text \<open>\<^verbatim>\<open>ee.Image.and\<close>: 1 where both values are non-zero, 0 elsewhere.\<close>

definition and_px :: "int \<Rightarrow> int \<Rightarrow> int" where
  "and_px a b = (if a = 0 then 0 else if b = 0 then 0 else 1)"

subsection \<open>The mask of one pixel\<close>

text \<open>
  \<^verbatim>\<open>var mask = qa.bitwiseAnd(cloudBitMask).eq(0)
      .and(qa.bitwiseAnd(cirrusBitMask).eq(0));\<close>
  for the value \<open>qa\<close> of the band QA60 at the pixel.
\<close>

definition mask_qa :: "int \<Rightarrow> int" where
  "mask_qa qa =
     and_px (eq_px (bitwiseAnd qa cloudBitMask) 0)
            (eq_px (bitwiseAnd qa cirrusBitMask) 0)"

text \<open>
  The specification's \<open>evaluateMask\<close> is the boolean reading of that mask value:
  \<^verbatim>\<open>updateMask\<close> keeps a pixel where the mask is not zero.
\<close>

definition evaluateMask :: "int \<Rightarrow> bool" where
  "evaluateMask q = (mask_qa q \<noteq> 0)"

subsection \<open>The pixel of an image, and \<open>maskS2clouds\<close>\<close>

text \<open>
  One pixel of a Sentinel-2 image: the value of its band QA60 and the values of its
  other bands, in the order of the image. The script never names the other bands in
  \<^verbatim>\<open>maskS2clouds\<close>, so they are a list.
\<close>

record 'a s2_bands =
  QA60 :: 'a
  refl :: "'a list"

text \<open>
  A pixel of the library carries a mask next to its values. A masked pixel holds no data
  and takes no part in any later computation: it is \<open>None\<close> here, a pixel with data is
  \<open>Some\<close> of its values.
\<close>

type_synonym 'a pixel = "'a option"

text \<open>\<^verbatim>\<open>image.select('QA60')\<close>: the band QA60 of the pixel, masked where the pixel is.\<close>

definition select_QA60 :: "int s2_bands pixel \<Rightarrow> int pixel" where
  "select_QA60 img = map_option QA60 img"

text \<open>
  \<^verbatim>\<open>ee.Image.updateMask\<close>: the pixel stays as it is where the mask is not zero and
  becomes masked where the mask is zero; a pixel that is masked already stays masked, and
  so does one whose mask value is itself masked.
\<close>

definition updateMask :: "'a pixel \<Rightarrow> int pixel \<Rightarrow> 'a pixel" where
  "updateMask img m =
     (case img of
        None \<Rightarrow> None
      | Some v \<Rightarrow> (case m of None \<Rightarrow> None | Some b \<Rightarrow> if b = 0 then None else Some v))"

text \<open>
  \<^verbatim>\<open>ee.Image.divide\<close> by a constant: every band of the pixel is divided by it (the
  library gives 0 for a division by 0, as HOL does); a masked pixel stays masked.
\<close>

definition divide_bands :: "int s2_bands \<Rightarrow> real \<Rightarrow> real s2_bands" where
  "divide_bands v c =
     \<lparr>QA60 = real_of_int (QA60 v) / c, refl = map (\<lambda>x. real_of_int x / c) (refl v)\<rparr>"

definition divide_px :: "int s2_bands pixel \<Rightarrow> real \<Rightarrow> real s2_bands pixel" where
  "divide_px img c = map_option (\<lambda>v. divide_bands v c) img"

text \<open>
  The last line of \<^verbatim>\<open>maskS2clouds\<close>, \<^verbatim>\<open>image.updateMask(mask).divide(10000)\<close>, as a
  function of the pixel and its mask value: the specification's
  \<open>applyMaskAndNormalize\<close>.
\<close>

definition applyMaskAndNormalize :: "int s2_bands pixel \<Rightarrow> int pixel \<Rightarrow> real s2_bands pixel" where
  "applyMaskAndNormalize img m = divide_px (updateMask img m) 10000"

text \<open>
  \<^verbatim>\<open>function maskS2clouds(image) {
    var qa = image.select('QA60');
    ...
    var mask = ...;
    return image.updateMask(mask).divide(10000);
  }\<close>
\<close>

definition maskS2clouds :: "int s2_bands pixel \<Rightarrow> real s2_bands pixel" where
  "maskS2clouds img =
     (let qa = select_QA60 img;
          m = map_option mask_qa qa
      in applyMaskAndNormalize img m)"

section \<open>Area of each class\<close>

text \<open>
  Step 8 of the script reduces the two-band image \<^verbatim>\<open>areaImage\<close> over the region with a
  grouped sum and turns every group into a feature. A row below is one pixel that the
  reduction takes in (a pixel of the region whose class is not masked), with the values
  of the two bands: the area it contributes, in square metres, and its class.
\<close>

type_synonym area_pixel = "real \<times> int"

text \<open>
  \<^verbatim>\<open>var areaImage = ee.Image.pixelArea().addBands(classified);\<close>
  Band 0 is the pixel area, band 1 the class.
\<close>

definition areaImage :: "real list \<Rightarrow> int list \<Rightarrow> area_pixel list" where
  "areaImage pixelArea classified = zip pixelArea classified"

text \<open>One entry of the list \<^verbatim>\<open>'groups'\<close>: a dictionary with the keys \<^verbatim>\<open>'class'\<close> and \<^verbatim>\<open>'sum'\<close>.\<close>

record group =
  group_class :: int
  group_sum :: real

text \<open>A group read as a pair of its key and its sum.\<close>

abbreviation kv :: "group \<Rightarrow> int \<times> real" where
  "kv g \<equiv> (group_class g, group_sum g)"

text \<open>
  Modelled from the spec: the grouped reducer
  \<^verbatim>\<open>ee.Reducer.sum().group({groupField: 1, groupName: 'class'})\<close> runs in the Earth Engine
  service and is not in the sources; the script only configures it. The specification's
  algorithm is to group by class label and to sum the pixel area values of each group,
  with no entry for a label without a pixel. Here a row whose class has a group already
  adds its area to that group, and any other row opens a new group. The sums are exact,
  and the groups stand in the order in which their classes first occur; the service's
  own order and rounding are not known from the sources.
\<close>

fun group_add :: "int \<Rightarrow> real \<Rightarrow> group list \<Rightarrow> group list" where
  "group_add k a [] = [\<lparr>group_class = k, group_sum = a\<rparr>]"
| "group_add k a (g # gs) =
     (if group_class g = k then g\<lparr>group_sum := group_sum g + a\<rparr> # gs
      else g # group_add k a gs)"

text \<open>
  Modelled from the spec: the reduction of the region by that reducer, which the service
  carries out. With \<^verbatim>\<open>groupField: 1\<close> the group key of a row is its band 1 (\<open>snd\<close>),
  and the summed value is the remaining band 0 (\<open>fst\<close>). The ceiling
  \<^verbatim>\<open>maxPixels: 1e13\<close> is a resource limit of the engine that the fixed region of the
  script stays far below; it is not modelled.
\<close>

definition sum_group :: "area_pixel list \<Rightarrow> group list" where
  "sum_group rows = foldl (\<lambda>gs row. group_add (snd row) (fst row) gs) [] rows"

text \<open>
  \<^verbatim>\<open>var area = areaImage.reduceRegion({reducer: ..., geometry: aoi, scale: 10, maxPixels: 1e13});
  var classAreas = ee.List(area.get('groups'));\<close>
\<close>

definition classAreas :: "area_pixel list \<Rightarrow> group list" where
  "classAreas img = sum_group img"

text \<open>The feature built for every group, with the properties \<^verbatim>\<open>'class'\<close> and \<^verbatim>\<open>'area_sq_km'\<close>.\<close>

record feature =
  feature_class :: int
  area_sq_km :: real

text \<open>
  \<^verbatim>\<open>var classAreaList = classAreas.map(function(item) {
    var areaDict = ee.Dictionary(item);
    var classId = areaDict.get('class');
    var areaSqMeters = areaDict.get('sum');
    var areaSqKm = ee.Number(areaSqMeters).divide(1e6);
    return ee.Feature(null, {'class': classId, 'area_sq_km': areaSqKm});
  });\<close>
\<close>

definition classAreaList :: "group list \<Rightarrow> feature list" where
  "classAreaList groups =
     map (\<lambda>item.
            let classId = group_class item;
                areaSqMeters = group_sum item;
                areaSqKm = areaSqMeters / 1000000
            in \<lparr>feature_class = classId, area_sq_km = areaSqKm\<rparr>) groups"

text \<open>
  The whole of step 8 on a sequence of pixels given as the specification gives them, as
  pairs of class label and pixel area: the list of features that the script prints.
\<close>

definition areaFeatures :: "(int \<times> real) list \<Rightarrow> feature list" where
  "areaFeatures pixels =
     classAreaList (classAreas (areaImage (map snd pixels) (map fst pixels)))"

text \<open>
  The specification's \<open>aggregateAreas\<close>: the same result read as a mapping from class
  label to area in square kilometres.
\<close>

definition aggregateAreas :: "(int \<times> real) list \<Rightarrow> (int \<rightharpoonup> real)" where
  "aggregateAreas pixels =
     map_of (map (\<lambda>f. (feature_class f, area_sq_km f)) (areaFeatures pixels))"

subsection \<open>The specification's reading, for comparison\<close>

text \<open>
  The algorithm in the specification's words: group by class label, sum the pixel areas
  of each group, divide the sum by 1,000,000; a label without a pixel has no entry.
\<close>

definition spec_aggregateAreas :: "(int \<times> real) list \<Rightarrow> (int \<rightharpoonup> real)" where
  "spec_aggregateAreas pixels =
     (\<lambda>l. if l \<in> fst ` set pixels
          then Some (sum_list (map snd (filter (\<lambda>p. fst p = l) pixels)) / 1000000)
          else None)"

section \<open>Properties of the cloud mask\<close>

subsection \<open>Facts about the masks\<close>

lemma cloudBitMask_value: "cloudBitMask = 2 ^ 10"
  by (simp add: cloudBitMask_def js_shl_def)

lemma cirrusBitMask_value: "cirrusBitMask = 2 ^ 11"
  by (simp add: cirrusBitMask_def js_shl_def)

lemma evaluateMask_and:
  "evaluateMask q = (q AND 2 ^ 10 = 0 \<and> q AND 2 ^ 11 = 0)"
  unfolding evaluateMask_def mask_qa_def and_px_def eq_px_def bitwiseAnd_def
    cloudBitMask_value cirrusBitMask_value
  by simp

lemma evaluateMask_bits: "evaluateMask q = (\<not> bit q 10 \<and> \<not> bit q 11)"
  unfolding evaluateMask_and by (simp only: and_exp_eq_0_iff_not_bit)

text \<open>
  Claim C1. For every integer quality bit field \<open>q\<close>, \<open>evaluateMask q\<close> is true exactly
  when both extractions \<open>q AND (1 << 10)\<close> and \<open>q AND (1 << 11)\<close> are zero; equivalently,
  exactly when bit 10 and bit 11 of \<open>q\<close> are both clear.
\<close>

theorem evaluateMask_iff_bits_clear:
  "(evaluateMask q = (q AND js_shl 1 10 = 0 \<and> q AND js_shl 1 11 = 0))
   \<and> (evaluateMask q = (\<not> bit q 10 \<and> \<not> bit q 11))
   \<and> js_shl 1 10 = 1024 \<and> js_shl 1 11 = 2048"
proof -
  have a: "js_shl 1 10 = 2 ^ 10"
    using cloudBitMask_value by (simp add: cloudBitMask_def)
  have b: "js_shl 1 11 = 2 ^ 11"
    using cirrusBitMask_value by (simp add: cirrusBitMask_def)
  have "evaluateMask q = (q AND js_shl 1 10 = 0 \<and> q AND js_shl 1 11 = 0)"
    unfolding a b by (rule evaluateMask_and)
  moreover have "evaluateMask q = (\<not> bit q 10 \<and> \<not> bit q 11)"
    by (rule evaluateMask_bits)
  moreover have "js_shl 1 10 = 1024" "js_shl 1 11 = 2048"
    unfolding a b by simp_all
  ultimately show ?thesis by blast
qed

text \<open>
  Claim C5. \<open>evaluateMask\<close> depends on bits 10 and 11 of its input only: two quality bit
  fields that agree on these two bits get the same answer, whatever their other bits
  are.
\<close>

theorem evaluateMask_only_bits_10_11:
  assumes "bit q 10 = bit q' 10" and "bit q 11 = bit q' 11"
  shows "evaluateMask q = evaluateMask q'"
  using assms by (simp add: evaluateMask_bits)

text \<open>The specification's instance: 0 and 1 (bit 0 set) agree on bits 10 and 11, and both are kept.\<close>

theorem evaluateMask_only_bits_10_11_witness:
  "bit (0::int) 10 = bit (1::int) 10 \<and> bit (0::int) 11 = bit (1::int) 11
   \<and> evaluateMask 0 = evaluateMask 1 \<and> evaluateMask 0 \<and> evaluateMask 1"
proof -
  have h10: "bit (0::int) 10 = bit (1::int) 10" by (simp add: bit_1_iff)
  have h11: "bit (0::int) 11 = bit (1::int) 11" by (simp add: bit_1_iff)
  have e: "evaluateMask 0 = evaluateMask 1"
    by (rule evaluateMask_only_bits_10_11 [OF h10 h11])
  have "evaluateMask 0" by (simp add: evaluateMask_and)
  with e h10 h11 show ?thesis by simp
qed

subsection \<open>Masking and normalisation\<close>

lemma applyMaskAndNormalize_Some:
  "applyMaskAndNormalize (Some r) (Some m) =
     (if m = 0 then None else Some (divide_bands r 10000))"
  by (simp add: applyMaskAndNormalize_def updateMask_def divide_px_def)

lemma maskS2clouds_Some:
  "maskS2clouds (Some r) =
     (if evaluateMask (QA60 r) then Some (divide_bands r 10000) else None)"
  by (simp add: maskS2clouds_def select_QA60_def applyMaskAndNormalize_Some evaluateMask_def)

text \<open>
  Claim C3. For a pixel with reflectance values \<open>r\<close> and a mask value \<open>m\<close>: when the mask
  is false (zero) the result is the masked pixel, which holds no data and is not a
  vector of zeros; when the mask is true (not zero) the result holds every band value
  divided by 10000. The masked result differs from the result for a kept pixel whose raw
  values are all zero, which is a vector of zeros. \<open>maskS2clouds\<close> applies this with the
  mask computed from the pixel's own QA60 value.
\<close>

theorem applyMaskAndNormalize_excluded_or_scaled:
  "applyMaskAndNormalize (Some r) (Some m) =
     (if m = 0 then None
      else Some \<lparr>QA60 = real_of_int (QA60 r) / 10000,
                 refl = map (\<lambda>x. real_of_int x / 10000) (refl r)\<rparr>)
   \<and> applyMaskAndNormalize (Some \<lparr>QA60 = 0, refl = replicate n 0\<rparr>) (Some 1) =
       Some \<lparr>QA60 = 0, refl = replicate n 0\<rparr>
   \<and> applyMaskAndNormalize (Some r) (Some 0) \<noteq>
       applyMaskAndNormalize (Some \<lparr>QA60 = 0, refl = replicate n 0\<rparr>) (Some 1)
   \<and> maskS2clouds (Some r) =
       applyMaskAndNormalize (Some r) (Some (if evaluateMask (QA60 r) then 1 else 0))"
  by (simp add: applyMaskAndNormalize_Some maskS2clouds_Some divide_bands_def)

subsection \<open>The range of the normalised values\<close>

lemma maskS2clouds_kept:
  assumes "maskS2clouds (Some r) = Some v"
  shows "v = divide_bands r 10000"
  using assms by (simp add: maskS2clouds_Some split: if_splits)

text \<open>
  Claim C9, as amended. The script divides by 10000 and does not clamp: for a kept pixel
  every normalised band value is the raw value divided by 10000, and it lies in the
  closed interval from 0 to 1 exactly when the raw value lies between 0 and 10000.
\<close>

theorem normalized_in_unit_interval_iff:
  assumes "maskS2clouds (Some r) = Some v" and "i < length (refl r)"
  shows "length (refl v) = length (refl r)
    \<and> refl v ! i = real_of_int (refl r ! i) / 10000
    \<and> ((0 \<le> refl v ! i \<and> refl v ! i \<le> 1) = (0 \<le> refl r ! i \<and> refl r ! i \<le> 10000))
    \<and> QA60 v = real_of_int (QA60 r) / 10000
    \<and> ((0 \<le> QA60 v \<and> QA60 v \<le> 1) = (0 \<le> QA60 r \<and> QA60 r \<le> 10000))"
proof -
  have v: "v = divide_bands r 10000"
    using assms(1) by (rule maskS2clouds_kept)
  have len: "length (refl v) = length (refl r)"
    by (simp add: v divide_bands_def)
  have val: "refl v ! i = real_of_int (refl r ! i) / 10000"
    using assms(2) by (simp add: v divide_bands_def)
  have qa: "QA60 v = real_of_int (QA60 r) / 10000"
    by (simp add: v divide_bands_def)
  have rng: "(0 \<le> real_of_int x / 10000 \<and> real_of_int x / 10000 \<le> 1) = (0 \<le> x \<and> x \<le> 10000)"
    for x :: int
    by (simp add: divide_le_eq)
  show ?thesis
    unfolding val qa using len rng by simp
qed

theorem normalized_in_unit_interval_iff_witness:
  "maskS2clouds (Some \<lparr>QA60 = 0, refl = [2500, 12000]\<rparr>) =
     Some \<lparr>QA60 = 0, refl = [1 / 4, 6 / 5]\<rparr>
   \<and> (1::nat) < length (refl \<lparr>QA60 = (0::int), refl = [2500, 12000]\<rparr>)
   \<and> refl \<lparr>QA60 = (0::real), refl = [1 / 4, 6 / 5]\<rparr> ! 1 = real_of_int 12000 / 10000
   \<and> ((0 \<le> refl \<lparr>QA60 = (0::real), refl = [1 / 4, 6 / 5]\<rparr> ! 1
        \<and> refl \<lparr>QA60 = (0::real), refl = [1 / 4, 6 / 5]\<rparr> ! 1 \<le> 1)
       = (0 \<le> refl \<lparr>QA60 = (0::int), refl = [2500, 12000]\<rparr> ! 1
          \<and> refl \<lparr>QA60 = (0::int), refl = [2500, 12000]\<rparr> ! 1 \<le> 10000))"
proof -
  have k: "maskS2clouds (Some \<lparr>QA60 = 0, refl = [2500, 12000]\<rparr>) =
      Some \<lparr>QA60 = 0, refl = [1 / 4, 6 / 5]\<rparr>"
    by (simp add: maskS2clouds_Some evaluateMask_and divide_bands_def)
  have i: "(1::nat) < length (refl \<lparr>QA60 = (0::int), refl = [2500, 12000]\<rparr>)"
    by simp
  from normalized_in_unit_interval_iff [OF k i] k i show ?thesis
    by simp
qed

text \<open>
  The claim as the specification states it fails: a kept pixel (QA60 = 0) with the raw
  band value 12000 is normalised to 6/5, which is above 1.
\<close>

theorem normalized_above_one_counterexample:
  "maskS2clouds (Some \<lparr>QA60 = 0, refl = [12000]\<rparr>) = Some \<lparr>QA60 = 0, refl = [6 / 5]\<rparr>
   \<and> \<not> ((6 / 5 :: real) \<le> 1)"
  by (simp add: maskS2clouds_Some evaluateMask_and divide_bands_def)

section \<open>Properties of the area aggregation\<close>

subsection \<open>The groups after one row, and after all rows\<close>

lemma map_of_group_add:
  "map_of (map kv (group_add k a gs)) =
     (map_of (map kv gs))(k \<mapsto> (case map_of (map kv gs) k of None \<Rightarrow> a | Some s \<Rightarrow> s + a))"
  by (induction gs) (auto simp: fun_eq_iff)

lemma keys_group_add:
  "set (map group_class (group_add k a gs)) = insert k (set (map group_class gs))"
  by (induction gs) auto

lemma distinct_group_add:
  "distinct (map group_class gs) \<Longrightarrow> distinct (map group_class (group_add k a gs))"
  by (induction gs) (auto simp: keys_group_add simp flip: set_map)

lemma foldl_lookup:
  "map_of (map kv (foldl (\<lambda>gs row. group_add (snd row) (fst row) gs) gs rows)) k =
     (case map_of (map kv gs) k of
        None \<Rightarrow> if k \<in> snd ` set rows
                then Some (sum_list (map fst (filter (\<lambda>r. snd r = k) rows))) else None
      | Some s \<Rightarrow> Some (s + sum_list (map fst (filter (\<lambda>r. snd r = k) rows))))"
proof (induction rows arbitrary: gs)
  case Nil
  then show ?case by (simp split: option.splits)
next
  case (Cons r rows)
  show ?case
    by (simp add: Cons.IH map_of_group_add split: option.splits)
qed

lemma foldl_keys:
  "set (map group_class (foldl (\<lambda>gs row. group_add (snd row) (fst row) gs) gs rows)) =
     set (map group_class gs) \<union> snd ` set rows"
  by (induction rows arbitrary: gs) (auto simp: keys_group_add simp del: set_map)

lemma foldl_distinct:
  "distinct (map group_class gs) \<Longrightarrow>
   distinct (map group_class (foldl (\<lambda>gs row. group_add (snd row) (fst row) gs) gs rows))"
  by (induction rows arbitrary: gs) (auto simp: distinct_group_add)

lemma zip_swap: "zip (map snd ps) (map fst ps) = map prod.swap ps"
  by (induction ps) auto

lemma areaFeatures_kv:
  "map (\<lambda>f. (feature_class f, area_sq_km f)) (classAreaList gs) =
   map (\<lambda>g. (group_class g, group_sum g / 1000000)) gs"
  by (simp add: classAreaList_def)

lemma map_of_scaled:
  "map_of (map (\<lambda>g. (group_class g, group_sum g / c)) gs) k =
   map_option (\<lambda>s. s / c) (map_of (map kv gs) k)"
  by (induction gs) auto

lemma aggregateAreas_lookup:
  "aggregateAreas ps k =
     (if k \<in> fst ` set ps
      then Some (sum_list (map snd (filter (\<lambda>p. fst p = k) ps)) / 1000000)
      else None)"
proof -
  have f: "map fst (filter (\<lambda>r. snd r = k) (map prod.swap ps)) = map snd (filter (\<lambda>p. fst p = k) ps)"
    by (induction ps) auto
  have s: "snd ` set (map prod.swap ps) = fst ` set ps"
    by force
  show ?thesis
    unfolding aggregateAreas_def areaFeatures_def areaFeatures_kv map_of_scaled
      classAreas_def sum_group_def areaImage_def zip_swap foldl_lookup f s
    by simp
qed

text \<open>
  Claim C2. For every input sequence the output mapping is the one obtained by grouping
  by class label, summing the pixel areas of each group and dividing each sum by
  1,000,000. In particular the pixels (1, 500000), (1, 500000), (2, 2000000) give the
  mapping of 1 to 1 and of 2 to 2, from the features of class 1 with area 1 and of
  class 2 with area 2.
\<close>

theorem aggregateAreas_group_sum:
  "aggregateAreas ps = spec_aggregateAreas ps
   \<and> aggregateAreas [(1, 500000), (1, 500000), (2, 2000000)] = [1 \<mapsto> 1, 2 \<mapsto> 2]
   \<and> areaFeatures [(1, 500000), (1, 500000), (2, 2000000)] =
       [\<lparr>feature_class = 1, area_sq_km = 1\<rparr>, \<lparr>feature_class = 2, area_sq_km = 2\<rparr>]"
proof -
  have g: "aggregateAreas ps = spec_aggregateAreas ps"
    by (rule ext) (simp add: aggregateAreas_lookup spec_aggregateAreas_def)
  have f: "areaFeatures [(1, 500000), (1, 500000), (2, 2000000)] =
      [\<lparr>feature_class = 1, area_sq_km = 1\<rparr>, \<lparr>feature_class = 2, area_sq_km = 2\<rparr>]"
    by (simp add: areaFeatures_def classAreas_def sum_group_def areaImage_def
        classAreaList_def)
  have m: "aggregateAreas [(1, 500000), (1, 500000), (2, 2000000)] = [1 \<mapsto> 1, 2 \<mapsto> 2]"
    unfolding aggregateAreas_def f by (rule ext) simp
  from g m f show ?thesis by (intro conjI)
qed


subsection \<open>The labels of the result\<close>

lemma areaFeatures_keys:
  "set (map feature_class (areaFeatures ps)) = fst ` set ps"
proof -
  have s: "snd ` set (map prod.swap ps) = fst ` set ps"
    by force
  have "map feature_class (classAreaList gs) = map group_class gs" for gs
    by (simp add: classAreaList_def)
  then show ?thesis
    unfolding areaFeatures_def classAreas_def sum_group_def areaImage_def zip_swap
    using foldl_keys [of "[]" "map prod.swap ps"] s by simp
qed

lemma areaFeatures_distinct: "distinct (map feature_class (areaFeatures ps))"
proof -
  have "map feature_class (classAreaList gs) = map group_class gs" for gs
    by (simp add: classAreaList_def)
  then show ?thesis
    unfolding areaFeatures_def classAreas_def sum_group_def
    using foldl_distinct [of "[]"] by simp
qed

text \<open>
  Claim C7. The output has exactly one entry for every class label that has at least
  one pixel in the input, and a label without a pixel in the input is absent from the
  output (so it is not there with the value 0 either).
\<close>

theorem aggregateAreas_labels_present:
  "distinct (map feature_class (areaFeatures ps))
   \<and> set (map feature_class (areaFeatures ps)) = fst ` set ps
   \<and> dom (aggregateAreas ps) = fst ` set ps
   \<and> (aggregateAreas ps l = None) = (l \<notin> fst ` set ps)"
proof -
  have n: "(aggregateAreas ps k = None) = (k \<notin> fst ` set ps)" for k
    by (simp add: aggregateAreas_lookup)
  have "dom (aggregateAreas ps) = fst ` set ps"
  proof (rule set_eqI)
    fix k
    have "(k \<in> dom (aggregateAreas ps)) = (aggregateAreas ps k \<noteq> None)"
      by (rule domIff)
    also have "\<dots> = (k \<in> fst ` set ps)"
      unfolding n by simp
    finally show "(k \<in> dom (aggregateAreas ps)) = (k \<in> fst ` set ps)" .
  qed
  moreover note n [of l]
  ultimately show ?thesis
    using areaFeatures_distinct areaFeatures_keys by blast
qed

text \<open>
  Claim C8. On the empty sequence the result is the empty mapping (the empty list of
  features); the script has no failing branch.
\<close>

theorem aggregateAreas_empty: "aggregateAreas [] = Map.empty \<and> areaFeatures [] = []"
  by (simp add: aggregateAreas_def areaFeatures_def classAreas_def sum_group_def
      areaImage_def classAreaList_def)

end
